theory Spec2Isabelle
  imports Complex_Main
begin

section \<open>Values and errors\<close>

text \<open>
  The embedding follows \<^verbatim>\<open>rnse_test_suite.py\<close>. A finite IEEE double is idealised as
  the real number it denotes (rounding and overflow are not modelled); the one
  non-finite value the analysis can produce from finite inputs, NaN (the mean of an
  empty selection), is a constructor of its own. Comparisons with NaN are false, as in
  IEEE arithmetic.
\<close>

datatype npfloat = Fin real | NaN

fun fl_lt :: "npfloat \<Rightarrow> npfloat \<Rightarrow> bool" where
  "fl_lt (Fin a) (Fin b) = (a < b)"
| "fl_lt _ _ = False"

fun fl_bin :: "(real \<Rightarrow> real \<Rightarrow> real) \<Rightarrow> npfloat \<Rightarrow> npfloat \<Rightarrow> npfloat" where
  "fl_bin f (Fin a) (Fin b) = Fin (f a b)"
| "fl_bin f _ _ = NaN"

text \<open>
  \<open>ValueError\<close> and \<open>TypeError\<close> are what numpy raises; the other three are the names
  of the specification's error taxonomy, which the source never raises.
\<close>

datatype error =
  ValueError | TypeError | GenerationError | ShapeMismatchError | InsufficientDataError

section \<open>The numpy operations the source calls\<close>

fun cumsum_from :: "real \<Rightarrow> real list \<Rightarrow> real list" where
  "cumsum_from acc [] = []"
| "cumsum_from acc (x # xs) = (acc + x) # cumsum_from (acc + x) xs"

definition np_cumsum :: "real list \<Rightarrow> real list" where
  "np_cumsum xs = cumsum_from 0 xs"

text \<open>\<^verbatim>\<open>np.max\<close> and \<^verbatim>\<open>np.min\<close> raise ValueError on a zero-size array.\<close>

fun np_max :: "real list \<Rightarrow> error + real" where
  "np_max [] = Inl ValueError"
| "np_max (x # xs) = Inr (fold max xs x)"

fun np_min :: "real list \<Rightarrow> error + real" where
  "np_min [] = Inl ValueError"
| "np_min (x # xs) = Inr (fold min xs x)"

text \<open>\<^verbatim>\<open>np.mean\<close> and \<^verbatim>\<open>np.std\<close> of an empty array warn and return NaN.\<close>

definition np_mean :: "real list \<Rightarrow> npfloat" where
  "np_mean xs = (if xs = [] then NaN else Fin (sum_list xs / real (length xs)))"

definition np_std :: "real list \<Rightarrow> npfloat" where
  "np_std xs =
     (if xs = [] then NaN
      else let m = sum_list xs / real (length xs)
           in Fin (sqrt (sum_list (map (\<lambda>x. \<bar>x - m\<bar> ^ 2) xs) / real (length xs))))"

definition np_median :: "real list \<Rightarrow> npfloat" where
  "np_median r =
     (let s = sort r; n = length r
      in if n = 0 then NaN
         else if n mod 2 = 1 then Fin (s ! (n div 2))
         else Fin ((s ! (n div 2 - 1) + s ! (n div 2)) / 2))"

text \<open>Boolean-mask indexing \<^verbatim>\<open>xs[mask]\<close> for a mask as long as \<open>xs\<close>.\<close>

definition np_select :: "bool list \<Rightarrow> 'a list \<Rightarrow> 'a list" where
  "np_select msk xs = map snd (filter fst (zip msk xs))"

text \<open>A two-dimensional array is the list of its rows.\<close>

definition row_norm :: "real list \<Rightarrow> real" where
  "row_norm v = sqrt (sum_list (map (\<lambda>x. \<bar>x\<bar> ^ 2) v))"

definition row_sub :: "real list \<Rightarrow> real list \<Rightarrow> real list" where
  "row_sub a b = map2 (-) a b"

text \<open>
  \<^verbatim>\<open>np.gradient(coords, axis=0)\<close>: central differences inside, one-sided differences at
  the two ends, ValueError when there are fewer than two rows.
\<close>

definition np_gradient :: "real list list \<Rightarrow> error + real list list" where
  "np_gradient f =
     (let n = length f
      in if n < 2 then Inl ValueError
         else Inr (map (\<lambda>i. if i = 0 then row_sub (f ! 1) (f ! 0)
                             else if i = n - 1 then row_sub (f ! (n - 1)) (f ! (n - 2))
                             else map (\<lambda>d. d / 2) (row_sub (f ! (i + 1)) (f ! (i - 1))))
                       [0..<n]))"

text \<open>
  \<^verbatim>\<open>np.column_stack\<close> of one-dimensional arrays: ValueError when there is no array or
  when the lengths differ.
\<close>

definition column_stack :: "real list list \<Rightarrow> error + real list list" where
  "column_stack dims =
     (case dims of
        [] \<Rightarrow> Inl ValueError
      | d # ds \<Rightarrow>
          if \<forall>e \<in> set ds. length e = length d
          then Inr (map (\<lambda>i. map (\<lambda>e. e ! i) dims) [0..<length d])
          else Inl ValueError)"

section \<open>MultiThreadRNSE\<close>

record SimulationConfig =
  n_particles :: int
  scale :: real
  threads :: int
  coupling :: real
  rng_seed :: int

definition default_config :: SimulationConfig where
  "default_config =
     \<lparr>n_particles = 10000, scale = 100, threads = 3, coupling = 5 / 100,
      rng_seed = 0x5EEDBEEFCAFE1234\<rparr>"

definition seeds :: "SimulationConfig \<Rightarrow> int list" where
  "seeds config = map (\<lambda>i. rng_seed config + int i * 0x1000) [0..<nat (threads config)]"

definition EPSILON :: real where
  "EPSILON = 1 / 10 ^ 9"

text \<open>The guarded divisor of \<^verbatim>\<open>run\<close>: \<^verbatim>\<open>if max_val < 1e-9: max_val = 1.0\<close>.\<close>

definition guarded_peak :: "real \<Rightarrow> real" where
  "guarded_peak max_val = (if max_val < EPSILON then 1 else max_val)"

text \<open>
  The accretion model of \<^verbatim>\<open>run\<close> for one axis: centre, integrate, normalise to the
  simulation box.
\<close>

definition trajectory :: "real list \<Rightarrow> real list" where
  "trajectory dim_x = np_cumsum (map (\<lambda>x. x - 1 / 2) dim_x)"

definition accretion :: "real \<Rightarrow> real list \<Rightarrow> error + real list" where
  "accretion scl dim_x =
     (case np_max (map abs (trajectory dim_x)) of
        Inl e \<Rightarrow> Inl e
      | Inr max_val \<Rightarrow>
          let scale_factor = scl / guarded_peak max_val
          in Inr (map (\<lambda>t. t * scale_factor) (trajectory dim_x)))"

text \<open>
  The engine \<^verbatim>\<open>rnse_core.rnse_run\<close> is not part of the repository; it is a parameter
  that maps a seed and a count to the parsed records \<open>(x, C)\<close> of its audit lines.
\<close>

type_synonym engine = "int \<Rightarrow> int \<Rightarrow> (real \<times> real) list"

fun run_loop ::
  "engine \<Rightarrow> SimulationConfig \<Rightarrow> (nat \<times> int) list \<Rightarrow> real list list \<Rightarrow> real list option
     \<Rightarrow> error + (real list list \<times> real list option)" where
  "run_loop rnse_run config [] dims mass_accum = Inr (dims, mass_accum)"
| "run_loop rnse_run config ((i, seed) # rest) dims mass_accum =
     (let res = rnse_run seed (n_particles config);
          dim_x = map fst res;
          dim_c = map snd res
      in case accretion (scale config) dim_x of
           Inl e \<Rightarrow> Inl e
         | Inr arr \<Rightarrow>
             run_loop rnse_run config rest (dims @ [arr])
               (if i = 0 then Some dim_c else mass_accum))"

definition run ::
  "engine \<Rightarrow> SimulationConfig \<Rightarrow> error + (real list list \<times> real list option)" where
  "run rnse_run config =
     (case run_loop rnse_run config (enumerate 0 (seeds config)) [] None of
        Inl e \<Rightarrow> Inl e
      | Inr (dims, mass_accum) \<Rightarrow>
          (case column_stack dims of
             Inl e \<Rightarrow> Inl e
           | Inr coords \<Rightarrow> Inr (coords, mass_accum)))"

record RotationCurveResult =
  inner_radius :: npfloat
  outer_radius :: npfloat
  median_radius :: npfloat
  inner_velocity :: npfloat
  outer_velocity :: npfloat
  velocity_drop_percent :: npfloat
  inner_v_stddev :: npfloat
  outer_v_stddev :: npfloat
  total_particles :: int
  mean_complexity :: npfloat
  interpretation_label :: string

definition interp :: "npfloat \<Rightarrow> string" where
  "interp velocity_drop =
     (if fl_lt velocity_drop (Fin 5) then ''FLAT (matches Dark Matter signature)''
      else if fl_lt velocity_drop (Fin 20) then ''MILD DECLINE''
      else ''STEEP DECLINE (Keplerian)'')"

definition inner_mask :: "real list \<Rightarrow> npfloat \<Rightarrow> bool list" where
  "inner_mask r median_r = map (\<lambda>x. fl_lt (Fin x) median_r) r"

definition outer_mask :: "real list \<Rightarrow> npfloat \<Rightarrow> bool list" where
  "outer_mask r median_r = map (\<lambda>x. fl_lt median_r (Fin x)) r"

definition velocity_drop :: "npfloat \<Rightarrow> npfloat \<Rightarrow> npfloat" where
  "velocity_drop inner_v outer_v =
     (if fl_lt (Fin 0) inner_v
      then fl_bin (*) (Fin 100) (fl_bin (-) (Fin 1) (fl_bin (/) outer_v inner_v))
      else Fin 0)"

definition analyze_rotation_curve ::
  "real list list \<Rightarrow> real list \<Rightarrow> error + RotationCurveResult" where
  "analyze_rotation_curve coords mass =
     (let r = map row_norm coords
      in case np_gradient coords of
           Inl e \<Rightarrow> Inl e
         | Inr vel \<Rightarrow>
             let v_mag = map (\<lambda>v. row_norm v * 10) vel;
                 median_r = np_median r;
                 inner = inner_mask r median_r;
                 outer = outer_mask r median_r;
                 inner_v = np_mean (np_select inner v_mag);
                 outer_v = np_mean (np_select outer v_mag);
                 inner_v_std = np_std (np_select inner v_mag);
                 outer_v_std = np_std (np_select outer v_mag);
                 drop = velocity_drop inner_v outer_v
             in case np_min (np_select inner r) of
                  Inl e \<Rightarrow> Inl e
                | Inr inner_r \<Rightarrow>
                    (case np_max (np_select outer r) of
                       Inl e \<Rightarrow> Inl e
                     | Inr outer_r \<Rightarrow>
                         Inr \<lparr>inner_radius = Fin inner_r,
                              outer_radius = Fin outer_r,
                              median_radius = median_r,
                              inner_velocity = inner_v,
                              outer_velocity = outer_v,
                              velocity_drop_percent = drop,
                              inner_v_stddev = inner_v_std,
                              outer_v_stddev = outer_v_std,
                              total_particles = int (length coords),
                              mean_complexity = np_mean mass,
                              interpretation_label = interp drop\<rparr>))"

section \<open>JSON serialisation\<close>

text \<open>
  The values \<^verbatim>\<open>json.dumps\<close> is given here: dictionaries keep their insertion order, so
  they are association lists. Strings hold code points below 256. The decimal text of
  a finite float (\<^verbatim>\<open>float.__repr__\<close>) is a parameter \<open>fr\<close>.
\<close>

datatype json =
  JNull | JBool bool | JInt int | JFloat npfloat | JStr string
  | JList "json list" | JDict "(string \<times> json) list"

definition hexdigit :: "nat \<Rightarrow> char" where
  "hexdigit n = ''0123456789abcdef'' ! n"

function digits_of :: "nat \<Rightarrow> nat \<Rightarrow> string" where
  "digits_of b n =
     (if b < 2 \<or> n < b then [hexdigit n] else digits_of b (n div b) @ [hexdigit (n mod b)])"
  by pat_completeness auto
termination
  by (relation "measure (\<lambda>(b, n). n)") auto

declare digits_of.simps [simp del]

text \<open>\<^verbatim>\<open>int.__repr__\<close> and \<^verbatim>\<open>hex\<close> on Python's unbounded integers.\<close>

definition int_repr :: "int \<Rightarrow> string" where
  "int_repr n = (if n < 0 then CHR ''-'' # digits_of 10 (nat (- n)) else digits_of 10 (nat n))"

definition hex :: "int \<Rightarrow> string" where
  "hex n = (if n < 0 then ''-0x'' @ digits_of 16 (nat (- n)) else ''0x'' @ digits_of 16 (nat n))"

definition floatstr :: "(real \<Rightarrow> string) \<Rightarrow> npfloat \<Rightarrow> string" where
  "floatstr fr f = (case f of NaN \<Rightarrow> ''NaN'' | Fin x \<Rightarrow> fr x)"

text \<open>\<^verbatim>\<open>json.encoder.py_encode_basestring_ascii\<close>.\<close>

definition escape_char :: "char \<Rightarrow> string" where
  "escape_char c =
     (if c = CHR 0x5C then [CHR 0x5C, CHR 0x5C]
      else if c = CHR 0x22 then [CHR 0x5C, CHR 0x22]
      else if c = CHR 0x08 then [CHR 0x5C, CHR ''b'']
      else if c = CHR 0x0C then [CHR 0x5C, CHR ''f'']
      else if c = CHR 0x0A then [CHR 0x5C, CHR ''n'']
      else if c = CHR 0x0D then [CHR 0x5C, CHR ''r'']
      else if c = CHR 0x09 then [CHR 0x5C, CHR ''t'']
      else if 0x20 \<le> (of_char c :: nat) \<and> (of_char c :: nat) \<le> 0x7E then [c]
      else [CHR 0x5C, CHR ''u'', CHR ''0'', CHR ''0'',
            hexdigit (of_char c div 16), hexdigit (of_char c mod 16)])"

definition encode_basestring_ascii :: "string \<Rightarrow> string" where
  "encode_basestring_ascii s = CHR 0x22 # concat (map escape_char s) @ [CHR 0x22]"

text \<open>
  \<^verbatim>\<open>json.dumps(obj, indent=indent)\<close> with the other arguments at their defaults: with an
  indent every item starts on a line of its own and the item separator is a comma;
  without one the text has no line break and the item separator is a comma and a space.
\<close>

definition newline_indent :: "nat option \<Rightarrow> nat \<Rightarrow> string" where
  "newline_indent indent lvl =
     (case indent of None \<Rightarrow> [] | Some n \<Rightarrow> CHR 0x0A # replicate (n * lvl) (CHR '' ''))"

definition item_separator :: "nat option \<Rightarrow> string" where
  "item_separator indent = (case indent of None \<Rightarrow> '', '' | Some n \<Rightarrow> '','')"

fun iterencode :: "(real \<Rightarrow> string) \<Rightarrow> nat option \<Rightarrow> nat \<Rightarrow> json \<Rightarrow> string"
  and iterencode_list :: "(real \<Rightarrow> string) \<Rightarrow> nat option \<Rightarrow> nat \<Rightarrow> json list \<Rightarrow> string"
  and iterencode_dict ::
    "(real \<Rightarrow> string) \<Rightarrow> nat option \<Rightarrow> nat \<Rightarrow> (string \<times> json) list \<Rightarrow> string"
  where
  "iterencode fr indent lvl JNull = ''null''"
| "iterencode fr indent lvl (JBool b) = (if b then ''true'' else ''false'')"
| "iterencode fr indent lvl (JInt n) = int_repr n"
| "iterencode fr indent lvl (JFloat f) = floatstr fr f"
| "iterencode fr indent lvl (JStr s) = encode_basestring_ascii s"
| "iterencode fr indent lvl (JList []) = ''[]''"
| "iterencode fr indent lvl (JList (x # xs)) =
     ''['' @ newline_indent indent (lvl + 1) @ iterencode fr indent (lvl + 1) x
       @ iterencode_list fr indent (lvl + 1) xs @ newline_indent indent lvl @ '']''"
| "iterencode fr indent lvl (JDict []) = ''{}''"
| "iterencode fr indent lvl (JDict (kv # kvs)) =
     ''{'' @ newline_indent indent (lvl + 1) @ encode_basestring_ascii (fst kv) @ '': ''
       @ iterencode fr indent (lvl + 1) (snd kv)
       @ iterencode_dict fr indent (lvl + 1) kvs @ newline_indent indent lvl @ ''}''"
| "iterencode_list fr indent lvl [] = []"
| "iterencode_list fr indent lvl (x # xs) =
     item_separator indent @ newline_indent indent lvl @ iterencode fr indent lvl x
       @ iterencode_list fr indent lvl xs"
| "iterencode_dict fr indent lvl [] = []"
| "iterencode_dict fr indent lvl (kv # kvs) =
     item_separator indent @ newline_indent indent lvl @ encode_basestring_ascii (fst kv)
       @ '': '' @ iterencode fr indent lvl (snd kv) @ iterencode_dict fr indent lvl kvs"

definition json_dumps :: "(real \<Rightarrow> string) \<Rightarrow> nat option \<Rightarrow> json \<Rightarrow> string" where
  "json_dumps fr indent obj = iterencode fr indent 0 obj"

section \<open>AuditMetadata and AuditLog\<close>

record AuditMetadata =
  test_name :: string
  timestamp :: string
  git_hash :: string
  seed :: int
  particle_count :: int

definition metadata_to_dict :: "AuditMetadata \<Rightarrow> json" where
  "metadata_to_dict m =
     JDict [(''test'', JStr (test_name m)),
            (''timestamp'', JStr (timestamp m)),
            (''git_hash'', JStr (git_hash m)),
            (''seed'', JStr (hex (seed m))),
            (''particle_count'', JInt (particle_count m))]"

record AuditLog =
  metadata :: AuditMetadata
  entries :: "json list"
  digest_sha256 :: string

definition new_audit_log :: "AuditMetadata \<Rightarrow> AuditLog" where
  "new_audit_log m = \<lparr>metadata = m, entries = [], digest_sha256 = []\<rparr>"

text \<open>
  \<^verbatim>\<open>add_result\<close> reads the wall clock; the reading, already in ISO format, is the
  argument \<open>now\<close>.
\<close>

definition add_result :: "string \<Rightarrow> string \<Rightarrow> json \<Rightarrow> AuditLog \<Rightarrow> AuditLog" where
  "add_result now key val alog =
     alog\<lparr>entries := entries alog
           @ [JDict [(''key'', JStr key), (''value'', val), (''timestamp'', JStr now)]]\<rparr>"

text \<open>The bytes \<^verbatim>\<open>finalize\<close> hashes: the text is ASCII, so its UTF-8 encoding is itself.\<close>

definition finalize_blob :: "(real \<Rightarrow> string) \<Rightarrow> AuditLog \<Rightarrow> string" where
  "finalize_blob fr alog =
     json_dumps fr (Some 2)
       (JDict [(''metadata'', metadata_to_dict (metadata alog)),
               (''entries'', JList (entries alog))])"

text \<open>
  \<^verbatim>\<open>hashlib.sha256(blob).hexdigest()\<close> is the parameter \<open>sha256\<close>. The result is the
  digest and the log with the digest stored.
\<close>

definition finalize ::
  "(string \<Rightarrow> string) \<Rightarrow> (real \<Rightarrow> string) \<Rightarrow> AuditLog \<Rightarrow> string \<times> AuditLog" where
  "finalize sha256 fr alog =
     (let digest = sha256 (finalize_blob fr alog)
      in (digest, alog\<lparr>digest_sha256 := digest\<rparr>))"

text \<open>
  The serialisation the specification asks the digest to be taken over: the non-pretty
  form of the same record, keys in the same fixed order.
\<close>

definition canonical_blob :: "(real \<Rightarrow> string) \<Rightarrow> AuditLog \<Rightarrow> string" where
  "canonical_blob fr alog =
     json_dumps fr None
       (JDict [(''metadata'', metadata_to_dict (metadata alog)),
               (''entries'', JList (entries alog))])"

section \<open>The full suite\<close>

definition config_dict :: "SimulationConfig \<Rightarrow> json" where
  "config_dict c =
     JDict [(''n_particles'', JInt (n_particles c)),
            (''scale'', JFloat (Fin (scale c))),
            (''threads'', JInt (threads c)),
            (''coupling'', JFloat (Fin (coupling c))),
            (''rng_seed'', JInt (rng_seed c))]"

definition result_to_dict :: "RotationCurveResult \<Rightarrow> json" where
  "result_to_dict res =
     JDict [(''inner_radius'', JFloat (inner_radius res)),
            (''outer_radius'', JFloat (outer_radius res)),
            (''median_radius'', JFloat (median_radius res)),
            (''inner_velocity'', JFloat (inner_velocity res)),
            (''outer_velocity'', JFloat (outer_velocity res)),
            (''velocity_drop_percent'', JFloat (velocity_drop_percent res)),
            (''inner_v_stddev'', JFloat (inner_v_stddev res)),
            (''outer_v_stddev'', JFloat (outer_v_stddev res)),
            (''total_particles'', JInt (total_particles res)),
            (''mean_complexity'', JFloat (mean_complexity res)),
            (''interpretation'', JStr (interpretation_label res))]"

text \<open>
  The audit log of \<^verbatim>\<open>run_full_suite\<close> before it is finalized; \<open>t0\<close>, \<open>t1\<close> and \<open>t2\<close>
  are the three readings of the wall clock, in the order the suite takes them.
\<close>

definition suite_audit ::
  "string \<Rightarrow> string \<Rightarrow> string \<Rightarrow> SimulationConfig \<Rightarrow> RotationCurveResult \<Rightarrow> AuditLog" where
  "suite_audit t0 t1 t2 config res =
     add_result t2 ''rotation_curve'' (result_to_dict res)
       (add_result t1 ''simulation_config'' (config_dict config)
          (new_audit_log
             \<lparr>test_name = ''galaxy_formation_v0.74'', timestamp = t0,
              git_hash = ''MANUAL_RUN'', seed = 0x5EEDBEEFCAFE1234,
              particle_count = 10000\<rparr>))"

record results_package =
  pkg_metadata :: json
  pkg_rotation_curve :: json
  pkg_audit_digest :: string

text \<open>
  \<^verbatim>\<open>run_full_suite\<close> without its printing, its caption and its output file.
  \<^verbatim>\<open>np.mean\<close> of a mass that is still \<^verbatim>\<open>None\<close> is a TypeError.
\<close>

definition run_full_suite ::
  "engine \<Rightarrow> (string \<Rightarrow> string) \<Rightarrow> (real \<Rightarrow> string) \<Rightarrow> string \<Rightarrow> string \<Rightarrow> string
     \<Rightarrow> error + results_package" where
  "run_full_suite rnse_run sha256 fr t0 t1 t2 =
     (let config = default_config
      in case run rnse_run config of
           Inl e \<Rightarrow> Inl e
         | Inr (coords, None) \<Rightarrow> Inl TypeError
         | Inr (coords, Some mass) \<Rightarrow>
             (case analyze_rotation_curve coords mass of
                Inl e \<Rightarrow> Inl e
              | Inr res \<Rightarrow>
                  let audit = suite_audit t0 t1 t2 config res
                  in Inr \<lparr>pkg_metadata = metadata_to_dict (metadata audit),
                          pkg_rotation_curve = result_to_dict res,
                          pkg_audit_digest = fst (finalize sha256 fr audit)\<rparr>))"

section \<open>Example inputs\<close>

text \<open>
  An engine that returns two records per axis whatever the count: the first axis walks
  from 0 to 1, the other two stay at 0. Under the default configuration the cloud is
  the two particles \<open>(0, 0, 0)\<close> and \<open>(100, 0, 0)\<close>.
\<close>

definition example_engine :: engine where
  "example_engine sd n =
     (if sd = 0x5EEDBEEFCAFE1234 then [(1 / 2, 1 / 2), (3 / 2, 1 / 4)]
      else [(1 / 2, 0), (1 / 2, 0)])"

definition example_result :: RotationCurveResult where
  "example_result =
     \<lparr>inner_radius = Fin 0, outer_radius = Fin 100, median_radius = Fin 50,
      inner_velocity = Fin 1000, outer_velocity = Fin 1000, velocity_drop_percent = Fin 0,
      inner_v_stddev = Fin 0, outer_v_stddev = Fin 0, total_particles = 2,
      mean_complexity = Fin (3 / 8),
      interpretation_label = ''FLAT (matches Dark Matter signature)''\<rparr>"

definition example_log :: AuditLog where
  "example_log =
     new_audit_log
       \<lparr>test_name = ''galaxy_formation_v0.74'', timestamp = ''2026-01-22T10:00:00.000001'',
        git_hash = ''MANUAL_RUN'', seed = 0x5EEDBEEFCAFE1234, particle_count = 10000\<rparr>"

section \<open>Facts about the numpy operations\<close>

lemma np_min_error: "np_min xs = Inl e \<longleftrightarrow> xs = [] \<and> e = ValueError"
  by (cases xs) auto

lemma np_max_error: "np_max xs = Inl e \<longleftrightarrow> xs = [] \<and> e = ValueError"
  by (cases xs) auto

lemma np_gradient_error: "np_gradient f = Inl e \<longleftrightarrow> length f < 2 \<and> e = ValueError"
  by (auto simp: np_gradient_def Let_def)

lemma np_gradient_Inr: "np_gradient f = Inr v \<Longrightarrow> 2 \<le> length f \<and> length v = length f"
  by (auto simp: np_gradient_def Let_def split: if_splits)

lemma np_select_map: "np_select (map P xs) xs = filter P xs"
  by (induction xs) (auto simp: np_select_def)

lemma np_select_length_cong:
  "length xs = length ys \<Longrightarrow> length (np_select m xs) = length (np_select m ys)"
proof (induction m arbitrary: xs ys)
  case Nil
  then show ?case by (simp add: np_select_def)
next
  case (Cons b m)
  then show ?case by (cases xs; cases ys) (auto simp: np_select_def)
qed

lemma np_select_empty_cong:
  "length xs = length ys \<Longrightarrow> np_select m xs = [] \<longleftrightarrow> np_select m ys = []"
  using np_select_length_cong[of xs ys m] by (metis length_0_conv)

lemma np_median_not_NaN: "r \<noteq> [] \<Longrightarrow> np_median r \<noteq> NaN"
  by (simp add: np_median_def Let_def)

lemma np_median_Fin: "r \<noteq> [] \<Longrightarrow> \<exists>m. np_median r = Fin m"
  using np_median_not_NaN[of r] by (cases "np_median r") auto

lemma trichotomy_count:
  "length (filter (\<lambda>x. x < (m::real)) r) + length (filter (\<lambda>x. m < x) r)
     + length (filter (\<lambda>x. x = m) r) = length r"
  by (induction r) auto




lemma length_cumsum_from: "length (cumsum_from acc xs) = length xs"
  by (induction xs arbitrary: acc) simp_all

lemma length_trajectory: "length (trajectory xs) = length xs"
  by (simp add: trajectory_def np_cumsum_def length_cumsum_from)

lemma accretion_cases:
  "accretion scl xs = Inl ValueError
     \<or> (\<exists>arr. accretion scl xs = Inr arr \<and> length arr = length xs)"
  by (cases "trajectory xs")
     (use length_trajectory[of xs] in \<open>auto simp: accretion_def Let_def\<close>)

lemma seeds_three:
  "threads config = 3 \<Longrightarrow>
     enumerate 0 (seeds config) =
       [(0, rng_seed config), (1, rng_seed config + 0x1000), (2, rng_seed config + 0x2000)]"
  by (simp add: seeds_def enumerate_eq_zip upt_conv_Cons)

lemma fold_max_scale:
  fixes c :: real
  assumes "0 \<le> c"
  shows "fold max (map (\<lambda>a. a * c) xs) (x * c) = fold max xs x * c"
proof (induction xs arbitrary: x)
  case Nil
  then show ?case by simp
next
  case (Cons y ys)
  have "max (x * c) (y * c) = max x y * c"
  proof (cases "x \<le> y")
    case True
    then have "x * c \<le> y * c" using assms by (rule mult_right_mono)
    then show ?thesis using True by (simp add: max_absorb2)
  next
    case False
    then have "y \<le> x" by simp
    then have "y * c \<le> x * c" using assms by (rule mult_right_mono)
    then show ?thesis using \<open>y \<le> x\<close> by (simp add: max_absorb1)
  qed
  then show ?case using Cons.IH[of "max y x"] by (simp add: max.commute)
qed

lemma np_max_scale:
  fixes c :: real
  assumes "0 \<le> c" "np_max xs = Inr m"
  shows "np_max (map (\<lambda>a. a * c) xs) = Inr (m * c)"
  using assms by (cases xs) (auto simp: fold_max_scale)

lemma np_max_bound: "np_max xs = Inr m \<Longrightarrow> x \<in> set xs \<Longrightarrow> x \<le> m"
proof (cases xs)
  case Nil
  assume "x \<in> set xs"
  then show ?thesis using Nil by simp
next
  case (Cons y ys)
  assume a: "np_max xs = Inr m" "x \<in> set xs"
  have "fold max ys y = Max (set (y # ys))" by (rule Max.set_eq_fold[symmetric])
  then have "m = Max (set xs)" using a(1) Cons by simp
  then show ?thesis using a(2) by simp
qed

lemma EPSILON_pos: "0 < EPSILON"
  by (simp add: EPSILON_def)

lemma guarded_peak_pos: "0 < guarded_peak m"
  using EPSILON_pos by (auto simp: guarded_peak_def)

lemma velocity_drop_Fin:
  "xs \<noteq> [] \<Longrightarrow> ys \<noteq> [] \<Longrightarrow> \<exists>d. velocity_drop (np_mean xs) (np_mean ys) = Fin d"
  by (simp add: velocity_drop_def np_mean_def)

lemma interp_Fin:
  "interp (Fin d) =
     (if d < 5 then ''FLAT (matches Dark Matter signature)''
      else if d < 20 then ''MILD DECLINE'' else ''STEEP DECLINE (Keplerian)'')"
  by (simp add: interp_def)

lemma interp_boundaries:
  "interp (Fin 5) = ''MILD DECLINE''" "interp (Fin 20) = ''STEEP DECLINE (Keplerian)''"
  "interp NaN = ''STEEP DECLINE (Keplerian)''"
  by (simp_all add: interp_def)

lemma analyze_error_is_ValueError:
  "analyze_rotation_curve coords mass = Inl e \<Longrightarrow> e = ValueError"
  by (auto simp: analyze_rotation_curve_def Let_def np_gradient_error np_min_error np_max_error
      split: sum.splits)

section \<open>Concrete runs\<close>

lemmas analyze_eval =
  analyze_rotation_curve_def np_gradient_def row_sub_def upt_conv_Cons row_norm_def
  np_median_def inner_mask_def outer_mask_def np_select_def np_mean_def np_std_def
  velocity_drop_def interp_def Let_def

lemma analyze_two_particles:
  "analyze_rotation_curve [[0, 0, 0], [1, 0, 0]] [1 / 2, 1 / 4] =
     Inr \<lparr>inner_radius = Fin 0, outer_radius = Fin 1, median_radius = Fin (1 / 2),
          inner_velocity = Fin 10, outer_velocity = Fin 10, velocity_drop_percent = Fin 0,
          inner_v_stddev = Fin 0, outer_v_stddev = Fin 0, total_particles = 2,
          mean_complexity = Fin (3 / 8),
          interpretation_label = ''FLAT (matches Dark Matter signature)''\<rparr>"
  by (simp add: analyze_eval)


lemma analyze_all_at_median:
  "analyze_rotation_curve [[1, 0, 0], [1, 0, 0]] [1 / 2, 1 / 4] = Inl ValueError"
  by (simp add: analyze_eval)

lemma analyze_one_particle:
  "analyze_rotation_curve [[1, 0, 0]] [1 / 2] = Inl ValueError"
  by (simp add: analyze_rotation_curve_def np_gradient_def)

lemma inner_all_at_median:
  "np_select (inner_mask (map row_norm [[1, 0, 0], [1, 0, 0]])
       (np_median (map row_norm [[1, 0, 0], [1, 0, 0]])))
     (map row_norm [[1, 0, 0], [1, 0, 0]]) = []"
  by (simp add: analyze_eval)

section \<open>The rotation-curve analysis\<close>

text \<open>
  C3, as the code has it: whenever the cloud has fewer than two particles, or the
  inner or the outer population is empty, the analysis raises numpy's ValueError
  (from \<^verbatim>\<open>np.gradient\<close>, \<^verbatim>\<open>np.min\<close> or \<^verbatim>\<open>np.max\<close>) and returns no result. The
  source has no InsufficientDataError.
\<close>

theorem analyze_empty_partition_raises_ValueError:
  assumes "length coords < 2
     \<or> np_select (inner_mask (map row_norm coords) (np_median (map row_norm coords)))
          (map row_norm coords) = []
     \<or> np_select (outer_mask (map row_norm coords) (np_median (map row_norm coords)))
          (map row_norm coords) = []"
  shows "analyze_rotation_curve coords mass = Inl ValueError"
  using assms
  by (auto simp: analyze_rotation_curve_def Let_def np_gradient_error np_min_error np_max_error
      split: sum.splits dest: np_gradient_Inr)

theorem analyze_empty_partition_raises_ValueError_witness:
  "np_select (inner_mask (map row_norm [[1, 0, 0], [1, 0, 0]])
       (np_median (map row_norm [[1, 0, 0], [1, 0, 0]])))
     (map row_norm [[1, 0, 0], [1, 0, 0]]) = []
   \<and> analyze_rotation_curve [[1, 0, 0], [1, 0, 0]] [] = Inl ValueError"
  using analyze_empty_partition_raises_ValueError
    [of "[[1, 0, 0], [1, 0, 0]]" "[]", OF disjI2, OF disjI1, OF inner_all_at_median]
    inner_all_at_median
  by simp

text \<open>
  C3 as stated fails: with every particle at the median radius the inner population is
  empty and the error is ValueError, not InsufficientDataError.
\<close>

theorem analyze_insufficient_data_counterexample:
  "np_select (inner_mask (map row_norm [[1, 0, 0], [1, 0, 0]])
       (np_median (map row_norm [[1, 0, 0], [1, 0, 0]])))
     (map row_norm [[1, 0, 0], [1, 0, 0]]) = []
   \<and> analyze_rotation_curve [[1, 0, 0], [1, 0, 0]] [1 / 2, 1 / 4] \<noteq> Inl InsufficientDataError"
  using inner_all_at_median analyze_all_at_median by simp

text \<open>
  C6, as the code has it: the label of a successful analysis is decided by the
  half-open thresholds 5 and 20 on the computed velocity drop, and the three labels are
  \<open>FLAT (matches Dark Matter signature)\<close>, \<open>MILD DECLINE\<close> and
  \<open>STEEP DECLINE (Keplerian)\<close>; a drop of exactly 5 is a mild decline and a drop of
  exactly 20 a steep one.
\<close>

theorem interpretation_thresholds:
  assumes "analyze_rotation_curve coords mass = Inr res"
  shows "\<exists>d. velocity_drop_percent res = Fin d
     \<and> (d < 5 \<longrightarrow> interpretation_label res = ''FLAT (matches Dark Matter signature)'')
     \<and> (5 \<le> d \<and> d < 20 \<longrightarrow> interpretation_label res = ''MILD DECLINE'')
     \<and> (20 \<le> d \<longrightarrow> interpretation_label res = ''STEEP DECLINE (Keplerian)'')"
proof -
  define r where "r = map row_norm coords"
  obtain vel where vel: "np_gradient coords = Inr vel"
    using assms by (auto simp: analyze_rotation_curve_def Let_def split: sum.splits)
  define v_mag where "v_mag = map (\<lambda>v. row_norm v * 10) vel"
  have len: "length v_mag = length r"
    using np_gradient_Inr[OF vel] by (simp add: v_mag_def r_def)
  define inner where "inner = inner_mask r (np_median r)"
  define outer where "outer = outer_mask r (np_median r)"
  have ne: "np_select inner r \<noteq> []" "np_select outer r \<noteq> []"
    using assms vel
    by (auto simp: analyze_rotation_curve_def Let_def r_def inner_def outer_def
        split: sum.splits)
  then have nev: "np_select inner v_mag \<noteq> []" "np_select outer v_mag \<noteq> []"
    using np_select_empty_cong[OF len] by blast+
  obtain d where d:
    "velocity_drop (np_mean (np_select inner v_mag)) (np_mean (np_select outer v_mag)) = Fin d"
    using velocity_drop_Fin[OF nev] by blast
  have "velocity_drop_percent res = Fin d \<and> interpretation_label res = interp (Fin d)"
    using assms vel d
    by (auto simp: analyze_rotation_curve_def Let_def r_def inner_def outer_def v_mag_def
        split: sum.splits)
  then show ?thesis by (auto simp: interp_Fin)
qed

theorem interpretation_thresholds_witness:
  "\<exists>res. analyze_rotation_curve [[0, 0, 0], [1, 0, 0]] [1 / 2, 1 / 4] = Inr res
     \<and> velocity_drop_percent res = Fin 0
     \<and> interpretation_label res = ''FLAT (matches Dark Matter signature)''"
  using interpretation_thresholds [OF analyze_two_particles] analyze_two_particles
  by simp

text \<open>C6 as stated fails: a drop of 0 is below 5 and the label is not \<open>FLAT\<close>.\<close>

theorem interpretation_label_counterexample:
  "(case analyze_rotation_curve [[0, 0, 0], [1, 0, 0]] [1 / 2, 1 / 4] of
      Inl e \<Rightarrow> False
    | Inr res \<Rightarrow> velocity_drop_percent res = Fin 0 \<and> interpretation_label res \<noteq> ''FLAT'')"
  by (simp add: analyze_two_particles)

text \<open>
  The masks of the analysis on any list of radii: strict comparisons against the
  median, and the two selections and the ties count up to the whole list.
\<close>

lemma radius_masks_partition:
  assumes "r = map row_norm coords" and "median_r = np_median r"
  shows "length (np_select (inner_mask r median_r) r)
       + length (np_select (outer_mask r median_r) r)
       + length (filter (\<lambda>x. Fin x = median_r) r) = length coords
   \<and> (\<forall>i < length coords.
        (inner_mask r median_r ! i \<longleftrightarrow> fl_lt (Fin (r ! i)) median_r)
      \<and> (outer_mask r median_r ! i \<longleftrightarrow> fl_lt median_r (Fin (r ! i)))
      \<and> (Fin (r ! i) = median_r \<longrightarrow>
           \<not> inner_mask r median_r ! i \<and> \<not> outer_mask r median_r ! i))"
proof (cases "r = []")
  case True
  then show ?thesis using assms by (simp add: np_select_def inner_mask_def outer_mask_def)
next
  case False
  then obtain m where m: "median_r = Fin m" using np_median_Fin assms(2) by blast
  have "length r = length coords" using assms(1) by simp
  then show ?thesis
    using trichotomy_count[of m r]
    by (auto simp: m inner_mask_def outer_mask_def np_select_map)
qed



text \<open>
  C10: the weight vector reaches only \<open>mean_complexity\<close>. The analysis of the same cloud
  with another weight vector fails in the same way or returns the same result with
  that one field replaced.
\<close>

theorem weights_only_reach_mean_complexity:
  "analyze_rotation_curve coords mass2 =
     map_sum id (\<lambda>res. res\<lparr>mean_complexity := np_mean mass2\<rparr>)
       (analyze_rotation_curve coords mass1)"
  by (auto simp: analyze_rotation_curve_def Let_def split: sum.splits)

theorem weights_only_reach_mean_complexity_witness:
  "analyze_rotation_curve [[0, 0, 0], [1, 0, 0]] [1, 3] =
     Inr \<lparr>inner_radius = Fin 0, outer_radius = Fin 1, median_radius = Fin (1 / 2),
          inner_velocity = Fin 10, outer_velocity = Fin 10, velocity_drop_percent = Fin 0,
          inner_v_stddev = Fin 0, outer_v_stddev = Fin 0, total_particles = 2,
          mean_complexity = Fin 2,
          interpretation_label = ''FLAT (matches Dark Matter signature)''\<rparr>"
  using weights_only_reach_mean_complexity
    [of "[[0, 0, 0], [1, 0, 0]]" "[1, 3]" "[1 / 2, 1 / 4]"]
  by (simp add: analyze_two_particles np_mean_def)

section \<open>The accretion transform and the assembly\<close>

text \<open>
  The peak magnitude of the output for a scale of either sign.
\<close>

lemma accretion_peak_abs_scale:
  assumes "np_max (map abs (trajectory dim_x)) = Inr peak" and "EPSILON \<le> peak"
  shows "\<exists>arr. accretion scl dim_x = Inr arr \<and> np_max (map abs arr) = Inr \<bar>scl\<bar>"
proof -
  define arr where "arr = map (\<lambda>t. t * (scl / peak)) (trajectory dim_x)"
  have pos: "0 < peak" using assms(2) EPSILON_pos by linarith
  have gp: "guarded_peak peak = peak" using assms(2) by (simp add: guarded_peak_def)
  have acc: "accretion scl dim_x = Inr arr"
    using assms(1) by (simp add: accretion_def gp arr_def)
  have "\<bar>t * (scl / peak)\<bar> = \<bar>t\<bar> * (\<bar>scl\<bar> / peak)" for t
    using pos by (simp add: abs_mult)
  then have e1: "map abs arr = map (\<lambda>a. a * (\<bar>scl\<bar> / peak)) (map abs (trajectory dim_x))"
    by (simp add: arr_def)
  have "0 \<le> \<bar>scl\<bar> / peak" using pos by simp
  then have e2: "np_max (map abs arr) = Inr (peak * (\<bar>scl\<bar> / peak))"
    unfolding e1 using assms(1) by (rule np_max_scale)
  have "peak * (\<bar>scl\<bar> / peak) = \<bar>scl\<bar>" using pos by simp
  then show ?thesis using acc e2 by simp
qed

lemmas accretion_eval =
  accretion_def trajectory_def np_cumsum_def guarded_peak_def EPSILON_def

text \<open>
  C8: for an axis whose peak cumulative magnitude is at least EPSILON, and a scale that
  is not negative (the configured scale is 100), the transform succeeds and the largest
  magnitude of its coordinates is the scale.
\<close>

theorem accretion_peak_is_scale:
  assumes "np_max (map abs (trajectory dim_x)) = Inr peak" and "EPSILON \<le> peak"
    and "0 \<le> scl"
  shows "\<exists>arr. accretion scl dim_x = Inr arr \<and> np_max (map abs arr) = Inr scl"
  using accretion_peak_abs_scale [OF assms(1) assms(2), of scl] assms(3) by simp

theorem accretion_peak_is_scale_witness:
  "np_max (map abs (trajectory [3 / 2, - 1 / 2])) = Inr 1 \<and> EPSILON \<le> 1
   \<and> (0 :: real) \<le> scale default_config
   \<and> accretion (scale default_config) [3 / 2, - 1 / 2] = Inr [100, 0]
   \<and> np_max (map abs [100, 0]) = Inr (scale default_config)"
proof -
  have p: "np_max (map abs (trajectory [3 / 2, - 1 / 2])) = Inr 1"
    by (simp add: accretion_eval)
  have e: "EPSILON \<le> 1"
    by (simp add: EPSILON_def)
  have s: "0 \<le> scale default_config"
    by (simp add: default_config_def)
  show ?thesis
    using accretion_peak_is_scale [OF p e s] p e s
    by (simp add: accretion_eval default_config_def)
qed

text \<open>
  C9: when the peak of the trajectory is below EPSILON the divisor is 1, so nothing is
  divided by zero, and the transform returns the trajectory times the scale, every
  coordinate of which is within \<open>\<bar>scale\<bar> * EPSILON\<close> of zero; it raises nothing.
\<close>

theorem accretion_degenerate_axis:
  assumes "np_max (map abs (trajectory dim_x)) = Inr peak" and "peak < EPSILON"
  shows "guarded_peak peak = 1
     \<and> accretion scl dim_x = Inr (map (\<lambda>t. t * (scl / 1)) (trajectory dim_x))
     \<and> (\<forall>arr. accretion scl dim_x = Inr arr \<longrightarrow> (\<forall>c \<in> set arr. \<bar>c\<bar> \<le> \<bar>scl\<bar> * EPSILON))"
proof -
  have gp: "guarded_peak peak = 1" using assms(2) by (simp add: guarded_peak_def)
  have acc: "accretion scl dim_x = Inr (map (\<lambda>t. t * (scl / 1)) (trajectory dim_x))"
    using assms(1) by (simp add: accretion_def gp)
  have "\<bar>t * scl\<bar> \<le> \<bar>scl\<bar> * EPSILON" if "t \<in> set (trajectory dim_x)" for t
  proof -
    have "\<bar>t\<bar> \<le> peak" using np_max_bound[OF assms(1), of "\<bar>t\<bar>"] that by simp
    then have "\<bar>t\<bar> \<le> EPSILON" using assms(2) by linarith
    then have "\<bar>scl\<bar> * \<bar>t\<bar> \<le> \<bar>scl\<bar> * EPSILON" by (simp add: mult_left_mono)
    then show ?thesis by (simp add: abs_mult mult.commute)
  qed
  then show ?thesis using gp acc by auto
qed

theorem accretion_degenerate_axis_witness:
  "np_max (map abs (trajectory [1 / 2, 1 / 2])) = Inr 0 \<and> 0 < EPSILON
   \<and> guarded_peak 0 = 1
   \<and> accretion 100 [1 / 2, 1 / 2] = Inr [0, 0]"
proof -
  have p: "np_max (map abs (trajectory [1 / 2, 1 / 2])) = Inr 0"
    by (simp add: accretion_eval)
  show ?thesis
    using accretion_degenerate_axis [OF p EPSILON_pos, of 100] p EPSILON_pos
    by (simp add: accretion_eval)
qed

text \<open>
  C4, as the code has it: stacking three coordinate sequences that are not all of the
  same length raises numpy's ValueError. The source has no ShapeMismatchError.
\<close>

theorem column_stack_length_mismatch_raises_ValueError:
  assumes "\<not> (length a = length b \<and> length b = length c)"
  shows "column_stack [a, b, c] = Inl ValueError"
  using assms by (auto simp: column_stack_def)

theorem column_stack_length_mismatch_raises_ValueError_witness:
  "\<not> (length [1 :: real] = length [1, 2 :: real] \<and> length [1, 2 :: real] = length [1 :: real])
   \<and> column_stack [[1], [1, 2], [1]] = Inl ValueError"
  using column_stack_length_mismatch_raises_ValueError [of "[1]" "[1, 2]" "[1]"]
  by simp

text \<open>C4 as stated fails: the error of a length mismatch is not ShapeMismatchError.\<close>

theorem column_stack_shape_mismatch_counterexample:
  "length [1 :: real] \<noteq> length [1, 2 :: real]
   \<and> column_stack [[1], [1, 2], [1]] \<noteq> Inl ShapeMismatchError"
  by (simp add: column_stack_def)

text \<open>
  The same at \<^verbatim>\<open>run\<close> with three axes: when the engine's three outputs are not all of
  the same length the run raises ValueError, from \<^verbatim>\<open>np.max\<close> on an empty axis or
  from \<^verbatim>\<open>np.column_stack\<close>.
\<close>

lemma run_length_mismatch_raises_ValueError:
  assumes "threads config = 3"
    and "\<not> (length (rnse_run (rng_seed config) (n_particles config))
               = length (rnse_run (rng_seed config + 0x1000) (n_particles config))
           \<and> length (rnse_run (rng_seed config + 0x1000) (n_particles config))
               = length (rnse_run (rng_seed config + 0x2000) (n_particles config)))"
  shows "run rnse_run config = Inl ValueError"
proof -
  let ?a = "map fst (rnse_run (rng_seed config) (n_particles config))"
  let ?b = "map fst (rnse_run (rng_seed config + 0x1000) (n_particles config))"
  let ?c = "map fst (rnse_run (rng_seed config + 0x2000) (n_particles config))"
  from accretion_cases[of "scale config" ?a] accretion_cases[of "scale config" ?b]
    accretion_cases[of "scale config" ?c] assms(2)
  show ?thesis
    by (auto simp: run_def seeds_three[OF assms(1)] Let_def column_stack_def)
qed

section \<open>The audit log\<close>

lemma replicate_numeral: "replicate (numeral k) x = x # replicate (pred_numeral k) x"
  by (simp add: numeral_eq_Suc)

lemmas json_eval = replicate_numeral
  finalize_blob_def canonical_blob_def json_dumps_def metadata_to_dict_def
  newline_indent_def item_separator_def encode_basestring_ascii_def escape_char_def
  int_repr_def hex_def hexdigit_def digits_of.simps new_audit_log_def add_result_def

lemma hex_default_seed: "hex 0x5EEDBEEFCAFE1234 = ''0x5eedbeefcafe1234''"
  by (simp add: hex_def hexdigit_def digits_of.simps)

lemma int_repr_examples: "int_repr 10000 = ''10000''" "int_repr (- 42) = ''-42''" "int_repr 0 = ''0''"
  by (simp_all add: int_repr_def hexdigit_def digits_of.simps)

lemma encode_basestring_ascii_example:
  "encode_basestring_ascii [CHR ''a'', CHR 0x22, CHR 0x0A, CHR 0x01, CHR 0xE9] =
     [CHR 0x22, CHR ''a'', CHR 0x5C, CHR 0x22, CHR 0x5C, CHR ''n'',
      CHR 0x5C, CHR ''u'', CHR ''0'', CHR ''0'', CHR ''0'', CHR ''1'',
      CHR 0x5C, CHR ''u'', CHR ''0'', CHR ''0'', CHR ''e'', CHR ''9'', CHR 0x22]"
  by (simp add: encode_basestring_ascii_def escape_char_def hexdigit_def)

text \<open>The bytes hashed for a log without entries, as Python prints them.\<close>

lemma finalize_blob_example:
  "finalize_blob fr example_log =
     ''{'' @ [CHR 0x0A]
     @ ''  '' @ [CHR 0x22] @ ''metadata'' @ [CHR 0x22] @ '': {'' @ [CHR 0x0A]
     @ ''    '' @ [CHR 0x22] @ ''test'' @ [CHR 0x22] @ '': ''
         @ [CHR 0x22] @ ''galaxy_formation_v0.74'' @ [CHR 0x22] @ '','' @ [CHR 0x0A]
     @ ''    '' @ [CHR 0x22] @ ''timestamp'' @ [CHR 0x22] @ '': ''
         @ [CHR 0x22] @ ''2026-01-22T10:00:00.000001'' @ [CHR 0x22] @ '','' @ [CHR 0x0A]
     @ ''    '' @ [CHR 0x22] @ ''git_hash'' @ [CHR 0x22] @ '': ''
         @ [CHR 0x22] @ ''MANUAL_RUN'' @ [CHR 0x22] @ '','' @ [CHR 0x0A]
     @ ''    '' @ [CHR 0x22] @ ''seed'' @ [CHR 0x22] @ '': ''
         @ [CHR 0x22] @ ''0x5eedbeefcafe1234'' @ [CHR 0x22] @ '','' @ [CHR 0x0A]
     @ ''    '' @ [CHR 0x22] @ ''particle_count'' @ [CHR 0x22] @ '': 10000'' @ [CHR 0x0A]
     @ ''  },'' @ [CHR 0x0A]
     @ ''  '' @ [CHR 0x22] @ ''entries'' @ [CHR 0x22] @ '': []'' @ [CHR 0x0A]
     @ ''}''"
  by (simp add: json_eval example_log_def)

lemma canonical_blob_example:
  "canonical_blob fr example_log =
     ''{'' @ [CHR 0x22] @ ''metadata'' @ [CHR 0x22] @ '': {''
     @ [CHR 0x22] @ ''test'' @ [CHR 0x22] @ '': ''
         @ [CHR 0x22] @ ''galaxy_formation_v0.74'' @ [CHR 0x22] @ '', ''
     @ [CHR 0x22] @ ''timestamp'' @ [CHR 0x22] @ '': ''
         @ [CHR 0x22] @ ''2026-01-22T10:00:00.000001'' @ [CHR 0x22] @ '', ''
     @ [CHR 0x22] @ ''git_hash'' @ [CHR 0x22] @ '': ''
         @ [CHR 0x22] @ ''MANUAL_RUN'' @ [CHR 0x22] @ '', ''
     @ [CHR 0x22] @ ''seed'' @ [CHR 0x22] @ '': ''
         @ [CHR 0x22] @ ''0x5eedbeefcafe1234'' @ [CHR 0x22] @ '', ''
     @ [CHR 0x22] @ ''particle_count'' @ [CHR 0x22] @ '': 10000''
     @ ''}, ''
     @ [CHR 0x22] @ ''entries'' @ [CHR 0x22] @ '': []''
     @ ''}''"
  by (simp add: json_eval example_log_def)

lemma finalize_blob_prefix:
  "take 30 (finalize_blob fr alog) =
     ''{'' @ [CHR 0x0A] @ ''  '' @ [CHR 0x22] @ ''metadata'' @ [CHR 0x22] @ '': {'' @ [CHR 0x0A]
       @ ''    '' @ [CHR 0x22] @ ''test'' @ [CHR 0x22] @ '': ''"
  by (simp add: finalize_blob_def json_dumps_def metadata_to_dict_def newline_indent_def
      replicate_numeral encode_basestring_ascii_def escape_char_def)

lemma canonical_blob_prefix:
  "take 2 (canonical_blob fr alog) = [CHR ''{'', CHR 0x22]"
  by (simp add: canonical_blob_def json_dumps_def metadata_to_dict_def newline_indent_def
      encode_basestring_ascii_def)

lemma finalize_blob_not_canonical: "finalize_blob fr alog \<noteq> canonical_blob fr alog"
proof
  assume "finalize_blob fr alog = canonical_blob fr alog"
  then have "take 2 (take 30 (finalize_blob fr alog)) = take 2 (canonical_blob fr alog)"
    by simp
  then show False
    unfolding finalize_blob_prefix canonical_blob_prefix by simp
qed

lemma iterencode_list_append:
  "iterencode_list fr indent lvl (xs @ ys) =
     iterencode_list fr indent lvl xs @ iterencode_list fr indent lvl ys"
  by (induction xs) simp_all

lemma iterencode_JList_grows:
  "length (iterencode fr (Some n) lvl (JList es))
     < length (iterencode fr (Some n) lvl (JList (es @ [e])))"
proof (cases es)
  case Nil
  then show ?thesis by (simp add: newline_indent_def)
next
  case (Cons x xs)
  then show ?thesis by (simp add: iterencode_list_append item_separator_def)
qed

lemma finalize_blob_grows:
  "length (finalize_blob fr alog) < length (finalize_blob fr (add_result now key val alog))"
  using iterencode_JList_grows[of fr 2 1 "entries alog"]
  by (simp add: finalize_blob_def json_dumps_def add_result_def)

lemma finalize_blob_ignores_digest:
  "finalize_blob fr (alog\<lparr>digest_sha256 := d\<rparr>) = finalize_blob fr alog"
  "finalize_blob fr (add_result now key val (alog\<lparr>digest_sha256 := d\<rparr>))
     = finalize_blob fr (add_result now key val alog)"
  by (simp_all add: finalize_blob_def add_result_def)

text \<open>
  C1, as the code has it: the digest is the hash of \<^verbatim>\<open>json.dumps(..., indent=2)\<close> of
  the record, the indented form itself with its keys in insertion order. For every log
  that text opens with the indented \<open>metadata\<close> object and is never the non-pretty
  serialisation of the same record.
\<close>

theorem finalize_digests_indented_form:
  "fst (finalize sha256 fr alog) =
     sha256 (json_dumps fr (Some 2)
       (JDict [(''metadata'', metadata_to_dict (metadata alog)),
               (''entries'', JList (entries alog))]))
   \<and> digest_sha256 (snd (finalize sha256 fr alog)) = fst (finalize sha256 fr alog)
   \<and> take 30 (finalize_blob fr alog) =
       ''{'' @ [CHR 0x0A] @ ''  '' @ [CHR 0x22] @ ''metadata'' @ [CHR 0x22] @ '': {''
         @ [CHR 0x0A] @ ''    '' @ [CHR 0x22] @ ''test'' @ [CHR 0x22] @ '': ''
   \<and> finalize_blob fr alog \<noteq> canonical_blob fr alog"
  using finalize_blob_prefix[of fr alog] finalize_blob_not_canonical[of fr alog]
  by (simp add: finalize_def Let_def finalize_blob_def)

theorem finalize_digests_indented_form_witness:
  "fst (finalize (\<lambda>s. s) (\<lambda>x. ''0.0'') example_log) =
     json_dumps (\<lambda>x. ''0.0'') (Some 2)
       (JDict [(''metadata'', metadata_to_dict (metadata example_log)),
               (''entries'', JList [])])
   \<and> finalize_blob (\<lambda>x. ''0.0'') example_log \<noteq> canonical_blob (\<lambda>x. ''0.0'') example_log"
  using finalize_digests_indented_form [of "\<lambda>s. s" "\<lambda>x. ''0.0''" example_log]
  by (simp add: example_log_def new_audit_log_def)

text \<open>
  C1 as stated fails: for a log without entries the hashed text has line breaks and is
  not the non-pretty form, which has none.
\<close>

theorem finalize_canonical_counterexample:
  "finalize_blob (\<lambda>x. ''0.0'') example_log \<noteq> canonical_blob (\<lambda>x. ''0.0'') example_log
   \<and> CHR 0x0A \<in> set (finalize_blob (\<lambda>x. ''0.0'') example_log)
   \<and> CHR 0x0A \<notin> set (canonical_blob (\<lambda>x. ''0.0'') example_log)"
  by (simp add: finalize_blob_example canonical_blob_example)

text \<open>
  C5: a second \<^verbatim>\<open>finalize\<close> with no entry added in between returns the same digest;
  after one more entry the hashed text is another one (it is longer), so the digest is
  another one unless the hash collides on the two texts.
\<close>

theorem finalize_idempotent_and_append_sensitive:
  "fst (finalize sha256 fr (snd (finalize sha256 fr alog))) = fst (finalize sha256 fr alog)
   \<and> finalize_blob fr (add_result now key val (snd (finalize sha256 fr alog)))
       \<noteq> finalize_blob fr (snd (finalize sha256 fr alog))
   \<and> (inj_on sha256 {finalize_blob fr alog, finalize_blob fr (add_result now key val alog)}
       \<longrightarrow> fst (finalize sha256 fr (add_result now key val (snd (finalize sha256 fr alog))))
             \<noteq> fst (finalize sha256 fr alog))"
proof -
  have ne: "finalize_blob fr (add_result now key val alog) \<noteq> finalize_blob fr alog"
    using finalize_blob_grows[of fr alog now key val] by auto
  show ?thesis
    using ne
    by (auto simp: finalize_def Let_def finalize_blob_ignores_digest inj_on_def)
qed

theorem finalize_idempotent_and_append_sensitive_witness:
  "fst (finalize (\<lambda>s. s) (\<lambda>x. ''0.0'') (snd (finalize (\<lambda>s. s) (\<lambda>x. ''0.0'') example_log)))
     = fst (finalize (\<lambda>s. s) (\<lambda>x. ''0.0'') example_log)
   \<and> inj_on (\<lambda>s :: string. s)
       {finalize_blob (\<lambda>x. ''0.0'') example_log,
        finalize_blob (\<lambda>x. ''0.0'')
          (add_result ''2026-01-22T10:00:00.000002'' ''n'' (JInt 1) example_log)}
   \<and> fst (finalize (\<lambda>s. s) (\<lambda>x. ''0.0'')
          (add_result ''2026-01-22T10:00:00.000002'' ''n'' (JInt 1)
             (snd (finalize (\<lambda>s. s) (\<lambda>x. ''0.0'') example_log))))
       \<noteq> fst (finalize (\<lambda>s. s) (\<lambda>x. ''0.0'') example_log)"
  using finalize_idempotent_and_append_sensitive
    [of "\<lambda>s. s" "\<lambda>x. ''0.0''" example_log "''2026-01-22T10:00:00.000002''" "''n''" "JInt 1"]
  by simp

section \<open>Two runs of the suite\<close>

lemma sqrt_10000: "sqrt 10000 = 100"
  by (rule real_sqrt_unique) simp_all

lemma run_example:
  "run example_engine default_config =
     Inr ([[0, 0, 0], [100, 0, 0]], Some [1 / 2, 1 / 4])"
  by (simp add: run_def seeds_def default_config_def enumerate_eq_zip upt_conv_Cons
      accretion_eval column_stack_def example_engine_def)

lemma analyze_example:
  "analyze_rotation_curve [[0, 0, 0], [100, 0, 0]] [1 / 2, 1 / 4] = Inr example_result"
  by (simp add: analyze_eval sqrt_10000 example_result_def)

lemma run_full_suite_example:
  "run_full_suite example_engine sha256 fr t0 t1 t2 =
     Inr \<lparr>pkg_metadata = metadata_to_dict (metadata (suite_audit t0 t1 t2 default_config example_result)),
          pkg_rotation_curve = result_to_dict example_result,
          pkg_audit_digest =
            fst (finalize sha256 fr (suite_audit t0 t1 t2 default_config example_result))\<rparr>"
  by (simp add: run_full_suite_def run_example analyze_example Let_def)

lemma suite_blob_clock:
  "finalize_blob fr (suite_audit ''2026-01-22T10:00:00.000001'' t1 t2 config res)
     \<noteq> finalize_blob fr (suite_audit ''2026-01-22T10:00:00.000002'' t1' t2' config' res')"
  by (simp add: json_eval suite_audit_def)

text \<open>
  C2 at two runs that start one microsecond apart: both return the same rotation
  curve, and each digest is the hash of a text that holds the run's clock readings,
  so the two hashed texts differ and the digests differ unless the hash collides.
\<close>

theorem suite_digest_depends_on_clock:
  assumes "run_full_suite rnse_run sha256 fr ''2026-01-22T10:00:00.000001'' t1 t2 = Inr p"
    and "run_full_suite rnse_run sha256 fr ''2026-01-22T10:00:00.000002'' t1' t2' = Inr p'"
  shows "pkg_rotation_curve p = pkg_rotation_curve p'
     \<and> (\<exists>res b b'.
           b = finalize_blob fr
                 (suite_audit ''2026-01-22T10:00:00.000001'' t1 t2 default_config res)
         \<and> b' = finalize_blob fr
                 (suite_audit ''2026-01-22T10:00:00.000002'' t1' t2' default_config res)
         \<and> pkg_rotation_curve p = result_to_dict res
         \<and> pkg_audit_digest p = sha256 b \<and> pkg_audit_digest p' = sha256 b'
         \<and> b \<noteq> b'
         \<and> (inj_on sha256 {b, b'} \<longrightarrow> pkg_audit_digest p \<noteq> pkg_audit_digest p'))"
proof -
  obtain coords mass res where
    r: "run rnse_run default_config = Inr (coords, Some mass)"
    and a: "analyze_rotation_curve coords mass = Inr res"
    using assms(1)
    by (auto simp: run_full_suite_def Let_def split: sum.splits option.splits prod.splits)
  let ?b = "finalize_blob fr
              (suite_audit ''2026-01-22T10:00:00.000001'' t1 t2 default_config res)"
  let ?b' = "finalize_blob fr
               (suite_audit ''2026-01-22T10:00:00.000002'' t1' t2' default_config res)"
  have p: "pkg_rotation_curve p = result_to_dict res" "pkg_audit_digest p = sha256 ?b"
    using assms(1) r a by (auto simp: run_full_suite_def Let_def finalize_def)
  have p': "pkg_rotation_curve p' = result_to_dict res" "pkg_audit_digest p' = sha256 ?b'"
    using assms(2) r a by (auto simp: run_full_suite_def Let_def finalize_def)
  have ne: "?b \<noteq> ?b'" by (rule suite_blob_clock)
  then have "inj_on sha256 {?b, ?b'} \<longrightarrow> sha256 ?b \<noteq> sha256 ?b'"
    by (auto simp: inj_on_def)
  then show ?thesis using p p' ne by auto
qed

theorem suite_digest_depends_on_clock_witness:
  "\<exists>p p'.
      run_full_suite example_engine (\<lambda>s. s) (\<lambda>x. ''0.0'')
        ''2026-01-22T10:00:00.000001'' ''2026-01-22T10:00:00.000101''
        ''2026-01-22T10:00:00.000201'' = Inr p
    \<and> run_full_suite example_engine (\<lambda>s. s) (\<lambda>x. ''0.0'')
        ''2026-01-22T10:00:00.000002'' ''2026-01-22T10:00:00.000102''
        ''2026-01-22T10:00:00.000202'' = Inr p'
    \<and> pkg_rotation_curve p = pkg_rotation_curve p'
    \<and> pkg_audit_digest p \<noteq> pkg_audit_digest p'"
proof -
  obtain p where h:
    "run_full_suite example_engine (\<lambda>s. s) (\<lambda>x. ''0.0'')
       ''2026-01-22T10:00:00.000001'' ''2026-01-22T10:00:00.000101''
       ''2026-01-22T10:00:00.000201'' = Inr p"
    using run_full_suite_example by blast
  obtain p' where h':
    "run_full_suite example_engine (\<lambda>s. s) (\<lambda>x. ''0.0'')
       ''2026-01-22T10:00:00.000002'' ''2026-01-22T10:00:00.000102''
       ''2026-01-22T10:00:00.000202'' = Inr p'"
    using run_full_suite_example by blast
  from suite_digest_depends_on_clock [OF h h']
  have "pkg_rotation_curve p = pkg_rotation_curve p'
      \<and> pkg_audit_digest p \<noteq> pkg_audit_digest p'"
    by auto
  with h h' show ?thesis by blast
qed

end
